theory Spec2Isabelle
  imports Complex_Main "HOL-Library.Word" "HOL-Library.Multiset"
begin

section \<open>Providers, errors and JavaScript arrays\<close>

text \<open>
  The TypeScript type \<open>EmbeddingProvider = 'openai' | 'gemini'\<close> (schema-v2.ts). With this
  type the \<open>default:\<close> branch of \<open>EmbeddingNormalizer.normalize\<close> is unreachable.
\<close>

datatype EmbeddingProvider = Openai | Gemini

text \<open>
  One constructor for every \<open>throw new Error(...)\<close> of the modelled code, carrying the values
  the message interpolates, and one for each failure of a collaborator.
\<close>

datatype error =
    InvalidGeminiDimensions nat
      \<comment> \<open>\<open>Invalid Gemini embedding dimensions: expected 768 or 3072, got n\<close>\<close>
  | UnsupportedOpenAIDimensions nat
      \<comment> \<open>\<open>Unsupported OpenAI embedding dimensions: n\<close>\<close>
  | UnsupportedEmbedding EmbeddingProvider nat
      \<comment> \<open>\<open>Unsupported embedding: provider with n dimensions\<close> (vector store)\<close>
  | DimensionMismatch nat nat
      \<comment> \<open>\<open>Dimension mismatch: m vs n\<close>\<close>
  | EmptyInput
      \<comment> \<open>\<open>Input cannot be empty\<close>\<close>
  | MissingApiKey
      \<comment> \<open>\<open>GEMINI_API_KEY environment variable is required\<close>\<close>
  | EmbeddingFailed
      \<comment> \<open>\<open>Failed to generate embedding: ...\<close>\<close>
  | ProviderFailure
      \<comment> \<open>a rejected call of an external embedding endpoint\<close>
  | ConstraintFailed
      \<comment> \<open>\<open>PRIMARY KEY constraint failed\<close>, raised by the database\<close>

text \<open>
  Embedding entries are JavaScript numbers. They are modelled as reals: finite values with
  exact arithmetic. The one operation of the code that can leave the finite numbers, the
  division, is modelled with its non-finite results written out (see \<open>js_divide\<close> below).
\<close>

type_synonym embedding = "real list"

text \<open>
  \<open>Array.prototype.slice(start, end)\<close>, here \<open>slice_array\<close>: a negative index counts
  from the end of the array, and both indices are clamped to the array.
\<close>

definition relative_index :: "nat \<Rightarrow> int \<Rightarrow> nat" where
  "relative_index len k = (if k < 0 then nat (max (int len + k) 0) else min (nat k) len)"

definition slice_array :: "'a list \<Rightarrow> int \<Rightarrow> int \<Rightarrow> 'a list" where
  "slice_array xs start fin =
     (let lo = relative_index (length xs) start;
          hi = relative_index (length xs) fin
      in take (hi - lo) (drop lo xs))"

section \<open>Embedding normalization\<close>

text \<open>
  Both normalizers pad a 768-wide Gemini vector with the same statements:
  \<^verbatim>\<open>
  const normalized = new Array(3072).fill(0);
  for (let i = 0; i < 768; i++) { normalized[i] = embedding[i]; }
  \<close>
  The loop reads \<open>embedding[i]\<close> only below 768, and runs only when the length is 768.
\<close>

definition pad_with_zeros :: "embedding \<Rightarrow> embedding" where
  "pad_with_zeros embedding =
     fold (\<lambda>i normalized. normalized[i := embedding ! i]) [0..<768] (replicate 3072 0)"

subsection \<open>\<open>EmbeddingNormalizer\<close> (src/ai/embedding-utils.ts)\<close>

text \<open>The static method \<open>normalize\<close> is \<open>normalize_vec\<close> here.\<close>

definition normalizeGemini :: "embedding \<Rightarrow> error + embedding" where
  "normalizeGemini embedding =
     (if length embedding = 3072 then Inr embedding
      else if length embedding = 768 then Inr (pad_with_zeros embedding)
      else Inl (InvalidGeminiDimensions (length embedding)))"

definition normalizeOpenAI :: "embedding \<Rightarrow> error + embedding" where
  "normalizeOpenAI embedding =
     (if length embedding = 3072 then Inr embedding
      else if length embedding = 1536 then Inr (slice_array embedding 0 3072)
      else if length embedding = 3072 then Inr (slice_array embedding 0 3072)
      else Inl (UnsupportedOpenAIDimensions (length embedding)))"

definition normalize_vec :: "embedding \<Rightarrow> EmbeddingProvider \<Rightarrow> error + embedding" where
  "normalize_vec embedding provider =
     (case provider of
        Gemini \<Rightarrow> normalizeGemini embedding
      | Openai \<Rightarrow> normalizeOpenAI embedding)"

definition validateEmbedding :: "embedding \<Rightarrow> EmbeddingProvider \<Rightarrow> bool" where
  "validateEmbedding embedding provider =
     (case provider of
        Gemini \<Rightarrow> length embedding \<in> set [768, 3072]
      | Openai \<Rightarrow> length embedding \<in> set [3072, 1536, 3072])"

subsection \<open>\<open>VectorStore.normalizeEmbedding\<close> (db/vector-store.ts)\<close>

definition normalizeEmbedding :: "embedding \<Rightarrow> EmbeddingProvider \<Rightarrow> error + embedding" where
  "normalizeEmbedding embedding provider =
     (if provider = Gemini \<and> length embedding = 3072 then Inr embedding
      else if provider = Gemini \<and> length embedding = 768 then Inr (pad_with_zeros embedding)
      else if provider = Openai \<and> length embedding = 1536 then Inr (slice_array embedding 0 3072)
      else Inl (UnsupportedEmbedding provider (length embedding)))"


section \<open>Cosine similarity (\<open>EmbeddingNormalizer.cosineSimilarity\<close>)\<close>

text \<open>
  The result of a JavaScript division: finite when the divisor is not zero, and otherwise
  \<open>NaN\<close> (for \<open>0 / 0\<close>) or an infinity. HOL's own \<open>x / 0 = 0\<close> is never relied on: every
  division of the code goes through \<open>js_divide\<close>.
\<close>

datatype number = Finite real | PosInfinity | NegInfinity | NaN

definition js_divide :: "real \<Rightarrow> real \<Rightarrow> number" where
  "js_divide x y =
     (if y \<noteq> 0 then Finite (x / y)
      else if x = 0 then NaN
      else if 0 < x then PosInfinity
      else NegInfinity)"

text \<open>
  The body of the accumulation loop, the same in \<open>cosineSimilarity\<close> and in the fallback
  scan of the vector store:
  \<^verbatim>\<open>
  dotProduct += a[i] * b[i];
  magnitudeA += a[i] * a[i];
  magnitudeB += b[i] * b[i];
  \<close>
\<close>

fun accumulate :: "embedding \<Rightarrow> embedding \<Rightarrow> nat \<Rightarrow> real \<times> real \<times> real \<Rightarrow> real \<times> real \<times> real" where
  "accumulate a b i (dotProduct, magnitudeA, magnitudeB) =
     (dotProduct + a ! i * b ! i, magnitudeA + a ! i * a ! i, magnitudeB + b ! i * b ! i)"


text \<open>The Euclidean magnitude and the dot product, to state what the loops compute.\<close>

definition magnitude :: "embedding \<Rightarrow> real" where
  "magnitude v = sqrt (\<Sum>x\<leftarrow>v. x * x)"

definition dot :: "embedding \<Rightarrow> embedding \<Rightarrow> real" where
  "dot a b = (\<Sum>(x, y)\<leftarrow>zip a b. x * y)"


section \<open>Embedding generation (ai/embed.ts, ai/gemini.ts)\<close>

text \<open>
  A JavaScript string is a sequence of 16-bit code units. \<open>String.prototype.trim\<close> strips,
  at both ends, the code points that ECMAScript calls \<open>WhiteSpace\<close> (tab, vertical tab, form
  feed, the byte order mark and the space separators of Unicode) and \<open>LineTerminator\<close>
  (line feed, carriage return, line and paragraph separator).
\<close>

type_synonym js_string = "16 word list"

definition isWhiteSpace :: "16 word \<Rightarrow> bool" where
  "isWhiteSpace c =
     (c \<in> set [0x0009, 0x000A, 0x000B, 0x000C, 0x000D, 0x0020, 0x00A0, 0x1680,
                0x2028, 0x2029, 0x202F, 0x205F, 0x3000, 0xFEFF]
      \<or> (0x2000 \<le> c \<and> c \<le> 0x200A))"

definition trim :: "js_string \<Rightarrow> js_string" where
  "trim s = rev (dropWhile isWhiteSpace (rev (dropWhile isWhiteSpace s)))"

text \<open>
  The environment variables the code reads. \<open>process.env.X || d\<close> takes the default for
  an unset and for an empty variable.
\<close>

record env =
  AI_PROVIDER :: "string option"
  OPENAI_EMBEDDING_MODEL :: "string option"
  GEMINI_EMBEDDING_MODEL :: "string option"
  GEMINI_API_KEY :: "string option"

definition or_default :: "string option \<Rightarrow> string \<Rightarrow> string" where
  "or_default v d = (case v of None \<Rightarrow> d | Some x \<Rightarrow> if x = [] then d else x)"

definition getCurrentProvider :: "env \<Rightarrow> EmbeddingProvider" where
  "getCurrentProvider e = (if AI_PROVIDER e = Some ''gemini'' then Gemini else Openai)"

text \<open>
  The two external endpoints are parameters of the model: functions from the model name and
  the input text to a rejection or a response. A Gemini response is classified by the first
  of the three shapes \<open>geminiEmbed\<close> accepts. Every call of an endpoint is appended to the
  \<open>calls\<close> of the state, which also holds the lazily created Gemini client.
\<close>

datatype gemini_response =
    EmbeddingValues embedding     \<comment> \<open>\<open>result.embedding.values\<close>\<close>
  | EmbeddingsValues embedding    \<comment> \<open>\<open>result.embeddings[0].values\<close>\<close>
  | EmbeddingArray embedding      \<comment> \<open>\<open>Array.isArray(result.embedding)\<close>\<close>
  | UnexpectedStructure

record services =
  openai_embeddings_create :: "string \<Rightarrow> js_string \<Rightarrow> error + embedding"
  gemini_embedContent :: "string \<Rightarrow> js_string \<Rightarrow> error + gemini_response"

datatype external_call =
    OpenAIEmbeddingsCreate string js_string
  | GeminiEmbedContent string js_string

record ai_state =
  geminiClient :: bool
  calls :: "external_call list"

definition getGeminiClient :: "env \<Rightarrow> ai_state \<Rightarrow> (error + unit) \<times> ai_state" where
  "getGeminiClient e st =
     (if \<not> geminiClient st then
        (case GEMINI_API_KEY e of
           None \<Rightarrow> (Inl MissingApiKey, st)
         | Some apiKey \<Rightarrow>
             if apiKey = [] then (Inl MissingApiKey, st)
             else (Inr (), st\<lparr>geminiClient := True\<rparr>))
      else (Inr (), st))"

definition geminiEmbed ::
  "services \<Rightarrow> env \<Rightarrow> js_string \<Rightarrow> ai_state \<Rightarrow> (error + embedding) \<times> ai_state" where
  "geminiEmbed svc e input st =
     (if trim input = [] then (Inl EmptyInput, st)
      else
        (case getGeminiClient e st of
           (Inl err, st1) \<Rightarrow> (Inl err, st1)
         | (Inr _, st1) \<Rightarrow>
             (let model = or_default (GEMINI_EMBEDDING_MODEL e) ''text-embedding-004'';
                  st2 = st1\<lparr>calls := calls st1 @ [GeminiEmbedContent model input]\<rparr>
              in case gemini_embedContent svc model input of
                   Inl _ \<Rightarrow> (Inl EmbeddingFailed, st2)
                 | Inr (EmbeddingValues v) \<Rightarrow> (Inr v, st2)
                 | Inr (EmbeddingsValues v) \<Rightarrow> (Inr v, st2)
                 | Inr (EmbeddingArray v) \<Rightarrow> (Inr v, st2)
                 | Inr UnexpectedStructure \<Rightarrow> (Inl EmbeddingFailed, st2))))"

text \<open>
  \<open>embed(input, normalize)\<close>, here \<open>embed_text\<close>. The warning that \<open>validateEmbedding\<close> triggers is console
  output and leaves no trace in the state.
\<close>

definition embed_text ::
  "services \<Rightarrow> env \<Rightarrow> js_string \<Rightarrow> bool \<Rightarrow> ai_state \<Rightarrow> (error + embedding) \<times> ai_state" where
  "embed_text svc e input normalized st =
     (if trim input = [] then (Inl EmptyInput, st)
      else
        (let provider = getCurrentProvider e;
             (response, st1) =
               (if provider = Gemini then geminiEmbed svc e input st
                else
                  (let model = or_default (OPENAI_EMBEDDING_MODEL e) ''text-embedding-3-small''
                   in (openai_embeddings_create svc model input,
                       st\<lparr>calls := calls st @ [OpenAIEmbeddingsCreate model input]\<rparr>)))
         in case response of
              Inl err \<Rightarrow> (Inl err, st1)
            | Inr embedding \<Rightarrow>
                if normalized then (normalize_vec embedding provider, st1)
                else (Inr embedding, st1)))"

definition embedRaw :: "services \<Rightarrow> env \<Rightarrow> js_string \<Rightarrow> ai_state \<Rightarrow> (error + embedding) \<times> ai_state" where
  "embedRaw svc e input st = embed_text svc e input False st"

definition embedNormalized :: "services \<Rightarrow> env \<Rightarrow> js_string \<Rightarrow> ai_state \<Rightarrow> (error + embedding) \<times> ai_state" where
  "embedNormalized svc e input st = embed_text svc e input True st"


section \<open>The database (db/schema-v2.ts)\<close>

text \<open>
  The columns an ingested snippet brings along, and a row of the \<open>snippets\<close> table: the
  generated \<open>id\<close>, the metadata, the provider and the width of the raw embedding (the
  \<open>created_at\<close> timestamp is left out). A row of \<open>snippets_vec_fallback\<close> is the pair of its
  \<open>snippet_id\<close>, the primary key, and its embedding. The code writes the embedding as the
  bytes of a \<open>Float32Array\<close> and reads them back into one; the model keeps the numbers.
\<close>

record snippet_metadata =
  library :: string
  path :: string
  title :: string
  description :: string
  language :: "string option"
  code :: string

record snippet_row =
  row_id :: int
  row_metadata :: snippet_metadata
  row_provider :: EmbeddingProvider
  row_embedding_dims :: nat

type_synonym vector_row = "int \<times> embedding"

text \<open>
  The state: the two tables, the counter behind \<open>AUTOINCREMENT\<close> (the largest \<open>id\<close> handed
  out so far), the module-level flags of vector-store.ts, and the write statements and
  transaction boundaries the database has executed, in order.
\<close>

datatype tx_behavior = Deferred | Immediate | Exclusive

datatype statement =
    Begin tx_behavior
  | Commit
  | InsertSnippet snippet_row
  | DeleteVectors "int list"
  | InsertVectors "vector_row list"

record store =
  snippets :: "snippet_row list"
  snippets_vec_fallback :: "vector_row list"
  sqlite_sequence :: int
  vecInitialized :: bool
  useFallback :: bool
  executed :: "statement list"



section \<open>The vector store (db/vector-store.ts)\<close>

definition init :: "store \<Rightarrow> store" where
  "init s = (if \<not> vecInitialized s then s\<lparr>useFallback := True, vecInitialized := True\<rparr> else s)"

text \<open>The elements of the argument of \<open>storeVectors\<close>: \<open>{ snippetId, embedding, provider }\<close>.\<close>

record vector_operation =
  op_snippetId :: int
  op_embedding :: embedding
  op_provider :: EmbeddingProvider

text \<open>
  \<^verbatim>\<open>
  const normalizedVectors = vectors.map(({ snippetId, embedding, provider }) => ({
    snippet_id: snippetId,
    embedding: Buffer.from(new Float32Array(this.normalizeEmbedding(embedding, provider)).buffer),
  }));
  \<close>
  There is no \<open>try\<close> around \<open>normalizeEmbedding\<close>: the first record it rejects ends the
  \<open>map\<close>, and \<open>storeVectors\<close>, with its error.
\<close>

fun normalizedVectors :: "vector_operation list \<Rightarrow> error + vector_row list" where
  "normalizedVectors [] = Inr []"
| "normalizedVectors (v # vs) =
     (case normalizeEmbedding (op_embedding v) (op_provider v) of
        Inl err \<Rightarrow> Inl err
      | Inr normalized \<Rightarrow>
          (case normalizedVectors vs of
             Inl err \<Rightarrow> Inl err
           | Inr rest \<Rightarrow> Inr ((op_snippetId v, normalized) # rest)))"





subsection \<open>Similarity search\<close>

text \<open>
  \<open>1 - similarity\<close> and the comparator \<open>a.distance - b.distance\<close> subtract numbers that
  come out of a division; the subtraction is modelled on all of \<open>number\<close>.
\<close>

fun js_minus :: "number \<Rightarrow> number \<Rightarrow> number" where
  "js_minus (Finite x) (Finite y) = Finite (x - y)"
| "js_minus NaN _ = NaN"
| "js_minus _ NaN = NaN"
| "js_minus PosInfinity PosInfinity = NaN"
| "js_minus NegInfinity NegInfinity = NaN"
| "js_minus PosInfinity _ = PosInfinity"
| "js_minus NegInfinity _ = NegInfinity"
| "js_minus (Finite x) PosInfinity = NegInfinity"
| "js_minus (Finite x) NegInfinity = PosInfinity"

text \<open>
  \<open>Array.prototype.sort(compare)\<close> is stable and puts \<open>a\<close> after \<open>b\<close> only when
  \<open>compare(a, b) > 0\<close>; a \<open>NaN\<close> from the comparator counts as 0. It is modelled as a stable
  insertion sort. For a comparator that is a consistent order, as the difference of two
  finite distances is, this is the one order ECMAScript allows.
\<close>

definition positive :: "number \<Rightarrow> bool" where
  "positive v = (case v of Finite r \<Rightarrow> 0 < r | PosInfinity \<Rightarrow> True | NegInfinity \<Rightarrow> False | NaN \<Rightarrow> False)"

fun insert_by :: "('a \<Rightarrow> 'a \<Rightarrow> number) \<Rightarrow> 'a \<Rightarrow> 'a list \<Rightarrow> 'a list" where
  "insert_by compare x [] = [x]"
| "insert_by compare x (y # ys) =
     (if positive (compare x y) then y # insert_by compare x ys else x # y # ys)"

definition sort_by :: "('a \<Rightarrow> 'a \<Rightarrow> number) \<Rightarrow> 'a list \<Rightarrow> 'a list" where
  "sort_by compare xs = foldr (insert_by compare) xs []"

record search_result =
  snippetId :: int
  distance :: number


text \<open>
  The callback of \<open>results.map\<close> in \<open>fallbackSimilaritySearch\<close>: the loop runs over
  \<open>Math.min(queryVector.length, embedding.length)\<close> indices.
\<close>

definition similarity_of :: "embedding \<Rightarrow> vector_row \<Rightarrow> search_result" where
  "similarity_of queryVector row =
     (case fold (accumulate queryVector (snd row))
             [0..<min (length queryVector) (length (snd row))] (0, 0, 0) of
        (dotProduct, queryMagnitude, embeddingMagnitude) \<Rightarrow>
          (let magnitude = sqrt queryMagnitude * sqrt embeddingMagnitude;
               similarity = (if magnitude > 0 then js_divide dotProduct magnitude else Finite 0)
           in \<lparr>snippetId = fst row, distance = js_minus (Finite 1) similarity\<rparr>))"




section \<open>The snippet store (db/snippet-store-v2.ts)\<close>







section \<open>Notions used to state the properties\<close>


















section \<open>Properties of the normalizers\<close>

lemma slice_from_zero: "0 \<le> n \<Longrightarrow> slice_array xs 0 n = take (nat n) xs"
  by (simp add: slice_array_def relative_index_def Let_def min_def)

lemma copy_loop_prefix:
  "n \<le> length acc \<Longrightarrow> n \<le> length e \<Longrightarrow>
   fold (\<lambda>i a. a[i := e ! i]) [0..<n] acc = take n e @ drop n acc"
proof (induction n)
  case 0
  then show ?case by simp
next
  case (Suc n)
  then have "fold (\<lambda>i a. a[i := e ! i]) [0..<Suc n] acc = (take n e @ drop n acc)[n := e ! n]"
    by simp
  also have "\<dots> = take n e @ (drop n acc)[0 := e ! n]"
    using Suc.prems by (simp add: list_update_append)
  also have "\<dots> = take n e @ e ! n # drop (Suc n) acc"
    using Suc.prems by (simp add: Cons_nth_drop_Suc [symmetric])
  also have "\<dots> = take (Suc n) e @ drop (Suc n) acc"
    using Suc.prems by (simp add: take_Suc_conv_app_nth)
  finally show ?case .
qed

lemma pad_with_zeros_768:
  "length embedding = 768 \<Longrightarrow> pad_with_zeros embedding = embedding @ replicate 2304 0"
  by (simp add: pad_with_zeros_def copy_loop_prefix)

lemma normalize_keeps_3072:
  "length embedding = 3072 \<Longrightarrow> normalize_vec embedding provider = Inr embedding"
  by (cases provider) (simp_all add: normalize_vec_def normalizeGemini_def normalizeOpenAI_def)

lemma normalizeEmbedding_gemini_keeps_3072:
  "length embedding = 3072 \<Longrightarrow> normalizeEmbedding embedding Gemini = Inr embedding"
  by (simp add: normalizeEmbedding_def)

lemma normalize_openai_1536:
  "length embedding = 1536 \<Longrightarrow> normalize_vec embedding Openai = Inr embedding"
  by (simp add: normalize_vec_def normalizeOpenAI_def slice_from_zero)


lemma normalizeEmbedding_width:
  "normalizeEmbedding embedding provider = Inr v \<Longrightarrow>
   length v = (if provider = Openai then 1536 else 3072)"
  by (auto simp: normalizeEmbedding_def pad_with_zeros_768 slice_from_zero split: if_splits)

text \<open>
  C1. Claimed: for every supported provider/width pair (gemini 768 or 3072, openai 1536 or
  3072) both normalizers return a vector of length 3072. The code is evaluated here at the
  pair (openai, 1536): \<open>slice(0, 3072)\<close> of a 1536-wide array is the array itself, so both
  \<open>EmbeddingNormalizer.normalize\<close> and \<open>VectorStore.normalizeEmbedding\<close> return a vector
  of length 1536; and at the pair (openai, 3072) \<open>VectorStore.normalizeEmbedding\<close> returns
  no vector at all.
\<close>

theorem normalize_openai_1536_stays_1536:
  "normalize_vec (replicate 1536 0) Openai = Inr (replicate 1536 0) \<and>
   normalizeEmbedding (replicate 1536 0) Openai = Inr (replicate 1536 0) \<and>
   length (replicate 1536 (0::real)) = 1536 \<and>
   normalizeEmbedding (replicate 3072 0) Openai = Inl (UnsupportedEmbedding Openai 3072)"
  by (simp add: normalize_vec_def normalizeOpenAI_def normalizeEmbedding_def slice_from_zero)

text \<open>
  C3. Claimed: a vector that already has length 3072 is returned unchanged for both
  providers by both normalizers. \<open>EmbeddingNormalizer.normalize\<close> does so
  (\<open>normalize_keeps_3072\<close>), and \<open>VectorStore.normalizeEmbedding\<close> does so for gemini
  (\<open>normalizeEmbedding_gemini_keeps_3072\<close>); for openai it has no branch for width 3072
  and raises, whatever the entries of the vector.
\<close>

theorem normalizeEmbedding_rejects_openai_3072:
  "normalize_vec (replicate 3072 1) Openai = Inr (replicate 3072 1) \<and>
   normalizeEmbedding (replicate 3072 1) Openai = Inl (UnsupportedEmbedding Openai 3072)"
  by (simp add: normalize_vec_def normalizeOpenAI_def normalizeEmbedding_def)

text \<open>
  C7. Normalizing a 768-wide vector with provider gemini yields, in both normalizers, a
  vector of length 3072 whose first 768 entries are the input, in order, and whose remaining
  2304 entries are 0.
\<close>

theorem normalize_gemini_768_pads:
  "length embedding = 768 \<Longrightarrow>
   normalize_vec embedding Gemini = Inr (embedding @ replicate 2304 0) \<and>
   normalizeEmbedding embedding Gemini = Inr (embedding @ replicate 2304 0) \<and>
   length (embedding @ replicate 2304 0) = 3072 \<and>
   take 768 (embedding @ replicate 2304 0) = embedding \<and>
   drop 768 (embedding @ replicate 2304 0) = replicate 2304 0"
  by (simp add: normalize_vec_def normalizeGemini_def normalizeEmbedding_def pad_with_zeros_768)

theorem normalize_gemini_768_pads_witness:
  "length (replicate 768 (1::real)) = 768 \<and>
   normalize_vec (replicate 768 1) Gemini = Inr (replicate 768 1 @ replicate 2304 0) \<and>
   normalizeEmbedding (replicate 768 1) Gemini = Inr (replicate 768 1 @ replicate 2304 0)"
  using normalize_gemini_768_pads [of "replicate 768 1"] by simp

section \<open>Properties of \<open>cosineSimilarity\<close>\<close>

lemma accumulate_fold:
  "fold (accumulate a b) [0..<n] (d, x, y) =
     (d + (\<Sum>i<n. a ! i * b ! i), x + (\<Sum>i<n. a ! i * a ! i), y + (\<Sum>i<n. b ! i * b ! i))"
  by (induction n) simp_all

lemma sum_nth_squares: "(\<Sum>i<length v. v ! i * v ! i) = (\<Sum>x\<leftarrow>v. x * (x::real))"
proof -
  have "(\<Sum>x\<leftarrow>v. x * x) = (\<Sum>i = 0..<length v. map (\<lambda>x. x * x) v ! i)"
    by (simp only: sum_list_sum_nth length_map)
  also have "\<dots> = (\<Sum>i<length v. v ! i * v ! i)"
    by (simp add: atLeast0LessThan)
  finally show ?thesis by simp
qed

lemma sum_nth_products:
  "length a = length b \<Longrightarrow> (\<Sum>i<length a. a ! i * b ! i) = dot a b"
proof -
  assume len: "length a = length b"
  have "dot a b = (\<Sum>i = 0..<length (zip a b). map (\<lambda>(x, y). x * y) (zip a b) ! i)"
    unfolding dot_def by (simp only: sum_list_sum_nth length_map)
  also have "\<dots> = (\<Sum>i<length a. a ! i * b ! i)"
    using len by (simp add: atLeast0LessThan)
  finally show ?thesis by simp
qed

lemma sum_squares_nonneg: "0 \<le> (\<Sum>x\<leftarrow>v. x * (x::real))"
  by (induction v) simp_all



lemma magnitude_nonneg: "0 \<le> magnitude v"
  by (simp add: magnitude_def sum_squares_nonneg)

lemma accumulate_loop:
  assumes "length a = length b"
  shows "fold (accumulate a b) [0..<length a] (0, 0, 0) =
           (dot a b, (\<Sum>x\<leftarrow>a. x * x), (\<Sum>x\<leftarrow>b. x * x))"
proof -
  have d: "(\<Sum>i<length a. a ! i * b ! i) = dot a b"
    using assms by (rule sum_nth_products)
  have x: "(\<Sum>i<length a. a ! i * a ! i) = (\<Sum>x\<leftarrow>a. x * x)"
    by (rule sum_nth_squares)
  have y: "(\<Sum>i<length a. b ! i * b ! i) = (\<Sum>x\<leftarrow>b. x * x)"
    unfolding assms by (rule sum_nth_squares)
  show ?thesis
    unfolding accumulate_fold d x y by simp
qed





section \<open>Properties of \<open>embed_text\<close>\<close>

lemma trim_blank: "(\<forall>c\<in>set input. isWhiteSpace c) \<Longrightarrow> trim input = []"
proof -
  assume "\<forall>c\<in>set input. isWhiteSpace c"
  then have "dropWhile isWhiteSpace input = []"
    by simp
  then show ?thesis
    unfolding trim_def by (simp only: rev.simps dropWhile.simps)
qed

lemma trim_empty_iff: "trim input = [] \<longleftrightarrow> (\<forall>c\<in>set input. isWhiteSpace c)"
proof
  assume "trim input = []"
  then have "dropWhile isWhiteSpace (rev (dropWhile isWhiteSpace input)) = []"
    by (simp add: trim_def)
  then have "\<forall>c\<in>set (dropWhile isWhiteSpace input). isWhiteSpace c"
    by simp
  then have "dropWhile isWhiteSpace input = []"
    by (metis hd_dropWhile list.set_sel(1))
  then show "\<forall>c\<in>set input. isWhiteSpace c"
    by simp
qed (rule trim_blank)

text \<open>
  C9. For an input that is empty or consists only of whitespace, \<open>embed_text\<close> (and \<open>geminiEmbed\<close>,
  which repeats the check) fails with the empty-input error and leaves the state as it
  was: no call of the OpenAI or of the Gemini endpoint has been recorded, and no client
  has been created. This holds for every environment, every behaviour of the endpoints and
  both values of the \<open>normalize\<close> flag.
\<close>

theorem embed_blank_input_fails_fast:
  assumes "\<forall>c\<in>set input. isWhiteSpace c"
  shows "embed_text svc e input normalized st = (Inl EmptyInput, st) \<and>
         geminiEmbed svc e input st = (Inl EmptyInput, st) \<and>
         calls (snd (embed_text svc e input normalized st)) = calls st \<and>
         calls (snd (geminiEmbed svc e input st)) = calls st"
  using trim_blank [OF assms] by (simp add: embed_text_def geminiEmbed_def)

theorem embed_blank_input_fails_fast_witness:
  "embed_text \<lparr>openai_embeddings_create = (\<lambda>model text. Inr [1]),
          gemini_embedContent = (\<lambda>model text. Inr (EmbeddingValues [1]))\<rparr>
     \<lparr>AI_PROVIDER = None, OPENAI_EMBEDDING_MODEL = None,
      GEMINI_EMBEDDING_MODEL = None, GEMINI_API_KEY = None\<rparr>
     [0x0020, 0x0009, 0x000A, 0x3000] True \<lparr>geminiClient = False, calls = []\<rparr>
     = (Inl EmptyInput, \<lparr>geminiClient = False, calls = []\<rparr>) \<and>
   embed_text \<lparr>openai_embeddings_create = (\<lambda>model text. Inr [1]),
          gemini_embedContent = (\<lambda>model text. Inr (EmbeddingValues [1]))\<rparr>
     \<lparr>AI_PROVIDER = Some ''gemini'', OPENAI_EMBEDDING_MODEL = None,
      GEMINI_EMBEDDING_MODEL = None, GEMINI_API_KEY = Some ''key''\<rparr>
     [] False \<lparr>geminiClient = False, calls = []\<rparr>
     = (Inl EmptyInput, \<lparr>geminiClient = False, calls = []\<rparr>)"
  using embed_blank_input_fails_fast
      [of "[0x0020, 0x0009, 0x000A, 0x3000]"
          "\<lparr>openai_embeddings_create = (\<lambda>model text. Inr [1]),
            gemini_embedContent = (\<lambda>model text. Inr (EmbeddingValues [1]))\<rparr>"
          "\<lparr>AI_PROVIDER = None, OPENAI_EMBEDDING_MODEL = None,
            GEMINI_EMBEDDING_MODEL = None, GEMINI_API_KEY = None\<rparr>"
          True "\<lparr>geminiClient = False, calls = []\<rparr>"]
    embed_blank_input_fails_fast
      [of "[]"
          "\<lparr>openai_embeddings_create = (\<lambda>model text. Inr [1]),
            gemini_embedContent = (\<lambda>model text. Inr (EmbeddingValues [1]))\<rparr>"
          "\<lparr>AI_PROVIDER = Some ''gemini'', OPENAI_EMBEDDING_MODEL = None,
            GEMINI_EMBEDDING_MODEL = None, GEMINI_API_KEY = Some ''key''\<rparr>"
          False "\<lparr>geminiClient = False, calls = []\<rparr>"]
  by (simp add: isWhiteSpace_def)


section \<open>Properties of the similarity search\<close>

lemma accumulate_prefix:
  "fold (accumulate a b) [0..<n] acc = fold (accumulate (take n a) (take n b)) [0..<n] acc"
  by (cases acc) (simp add: accumulate_fold)

lemma similarity_of_eq:
  fixes q e :: embedding
  defines "n \<equiv> min (length q) (length e)"
  shows "similarity_of q (i, e) =
           \<lparr>snippetId = i,
            distance = Finite (1 - (if magnitude (take n q) * magnitude (take n e) = 0 then 0
                                    else dot (take n q) (take n e) /
                                         (magnitude (take n q) * magnitude (take n e))))\<rparr>"
proof -
  have len: "length (take n q) = length (take n e)"
    by (simp add: n_def)
  have n: "length (take n q) = n"
    by (simp add: n_def)
  have loop: "fold (accumulate q e) [0..<n] (0, 0, 0) =
      (dot (take n q) (take n e), (\<Sum>x\<leftarrow>take n q. x * x), (\<Sum>x\<leftarrow>take n e. x * x))"
    using accumulate_loop [OF len] accumulate_prefix [of q e n "(0, 0, 0)"] unfolding n by simp
  have pos: "0 < magnitude (take n q) * magnitude (take n e) \<longleftrightarrow>
             magnitude (take n q) * magnitude (take n e) \<noteq> 0"
    using mult_nonneg_nonneg [OF magnitude_nonneg [of "take n q"] magnitude_nonneg [of "take n e"]]
    by linarith
  show ?thesis
    unfolding similarity_of_def snd_conv fst_conv n_def [symmetric] loop
    using pos by (simp add: magnitude_def [symmetric] js_divide_def)
qed


lemma snippetId_similarity_of: "snippetId (similarity_of q row) = fst row"
  by (cases row) (simp add: similarity_of_eq)

lemma mset_insert_by: "mset (insert_by c x ys) = add_mset x (mset ys)"
  by (induction ys) simp_all

lemma mset_sort_by: "mset (sort_by c xs) = mset xs"
  by (induction xs) (simp_all add: sort_by_def mset_insert_by)


lemma length_sort_by: "length (sort_by c xs) = length xs"
  using mset_sort_by [of c xs] by (metis size_mset)






lemma slice_nonneg_limit: "0 \<le> limit \<Longrightarrow> slice_array xs 0 limit = take (nat limit) xs"
  by (rule slice_from_zero)

















section \<open>Properties of \<open>storeVectors\<close>\<close>










lemma normalizedVectors_rows:
  "normalizedVectors vs = Inr rows \<Longrightarrow> i < length vs \<Longrightarrow>
   normalizeEmbedding (op_embedding (vs ! i)) (op_provider (vs ! i)) = Inr (snd (rows ! i))"
proof (induction vs arbitrary: rows i)
  case Nil
  then show ?case by simp
next
  case (Cons v vs)
  then show ?case
    by (cases i) (auto split: sum.splits)
qed








lemma init_fields [simp]:
  "snippets (init s) = snippets s"
  "snippets_vec_fallback (init s) = snippets_vec_fallback s"
  "sqlite_sequence (init s) = sqlite_sequence s"
  "executed (init s) = executed s"
  by (simp_all add: init_def)


















section \<open>Properties of \<open>insertSnippets\<close>\<close>






end
